theory Spec2Isabelle
  imports Main "HOL-Library.Char_ord" "HOL-Library.List_Lexorder"
begin

section \<open>SatsForGood: invoice and donation lifecycle\<close>

text \<open>
  The development embeds the in-memory API of \<^verbatim>\<open>src/lib/api.ts\<close> (the module
  variables \<^verbatim>\<open>mockDonations\<close>, \<^verbatim>\<open>pendingInvoice\<close>, \<^verbatim>\<open>pollCount\<close> and the four
  exported functions), the backend client of the same module in its later revision
  (\<^verbatim>\<open>confirmPayment\<close>, \<^verbatim>\<open>getDonationReceipt\<close>, the fetching \<^verbatim>\<open>getInvoiceStatus\<close>), the
  receipt component's \<^verbatim>\<open>fetchReceipt\<close> and the donate form's \<^verbatim>\<open>formSchema\<close>.

  Conventions of the embedding.
  \<^item> The module variables are one record, passed in and returned.
  \<^item> The clock is an input: \<^verbatim>\<open>Date.now()\<close> is a parameter \<open>now\<close> (epoch milliseconds),
    \<^verbatim>\<open>new Date().toISOString()\<close> is a parameter \<open>iso_now\<close> (the string the call would read).
    ISO-8601 strings of this fixed format compare as instants under the lexicographic
    order of strings.
  \<^item> \<^verbatim>\<open>amount_sats: number\<close> is an \<open>int\<close>: amounts are whole satoshis inside the range in
    which JavaScript numbers add exactly; fractional and non-finite numbers are outside
    the model.
  \<^item> An optional field or parameter (\<^verbatim>\<open>recipient?: string\<close>) is an \<open>option\<close>; \<open>None\<close> is
    \<^verbatim>\<open>undefined\<close>.
  \<^item> Strings are ASCII; \<^verbatim>\<open>await delay(ms)\<close> only postpones a call and is not modelled.
\<close>

subsection \<open>Types (\<^verbatim>\<open>types.ts\<close>, and \<^verbatim>\<open>DonationReceipt\<close> of the backend client)\<close>

record DonationReceipt =
  id' :: string
  donor_name :: string
  recipient :: "string option"
  amount_sats :: int
  payment_hash :: string
  paid_at :: string
  transaction_id :: string
  network :: string

datatype status = PENDING | PAID | EXPIRED

record InvoiceStatus =
  status :: status
  paid_at :: "string option"

record Invoice =
  invoice :: string
  payment_hash :: string
  expires_in :: nat
  donor_name :: "string option"
  recipient :: "string option"
  amount_sats :: int
  qr_code :: "string option"

text \<open>The field \<^verbatim>\<open>status: "PAID"\<close> of a donation has the one-value type \<^verbatim>\<open>"PAID"\<close>.\<close>

record Donation =
  id' :: string
  donor_name :: string
  recipient :: "string option"
  amount_sats :: int
  status :: status
  paid_at :: string

subsection \<open>Numbers in template literals\<close>

definition digit_char :: "nat \<Rightarrow> char" where
  "digit_char d = ''0123456789'' ! d"

fun show_nat :: "nat \<Rightarrow> string" where
  "show_nat n = (if n < 10 then [digit_char n] else show_nat (n div 10) @ [digit_char (n mod 10)])"

declare show_nat.simps [simp del]

definition show_int :: "int \<Rightarrow> string" where
  "show_int i = (if i < 0 then CHR ''-'' # show_nat (nat (- i)) else show_nat (nat i))"

text \<open>The ASCII characters that the regular expression class \<^verbatim>\<open>\s\<close> matches.\<close>

definition is_space :: "char \<Rightarrow> bool" where
  "is_space c = (c \<in> set [CHR '' '', CHR 0x09, CHR 0x0A, CHR 0x0B, CHR 0x0C, CHR 0x0D])"

subsection \<open>The in-memory database and API (\<^verbatim>\<open>src/lib/api.ts\<close>)\<close>

record api_state =
  mockDonations :: "Donation list"
  pendingInvoice :: "Invoice option"
  pollCount :: nat

definition init_state :: api_state where
  "init_state = \<lparr>mockDonations = [], pendingInvoice = None, pollCount = 0\<rparr>"

text \<open>
  \<^verbatim>\<open>createInvoice(amount_sats, donor_name = "Anonymous", recipient?)\<close>: the default
  applies exactly when the argument is \<^verbatim>\<open>undefined\<close>.
\<close>

definition createInvoice ::
  "nat \<Rightarrow> int \<Rightarrow> string option \<Rightarrow> string option \<Rightarrow> api_state \<Rightarrow> Invoice \<times> api_state" where
  "createInvoice now amount_sats' donor_name_arg recipient' s =
     (let donor_name' = (case donor_name_arg of None \<Rightarrow> ''Anonymous'' | Some n \<Rightarrow> n);
          payment_hash' = ''mock_payment_hash_'' @ show_nat now;
          invoiceString = ''ln-testnet-invoice-'' @ show_int amount_sats' @ ''-''
             @ map (\<lambda>c. if is_space c then CHR ''_'' else c) donor_name'
             @ ''-'' @ payment_hash';
          newInvoice = \<lparr>invoice = invoiceString,
                        payment_hash = payment_hash',
                        expires_in = 3600,
                        Invoice.donor_name = Some donor_name',
                        Invoice.recipient = recipient',
                        Invoice.amount_sats = amount_sats',
                        qr_code = None\<rparr>
      in (newInvoice, s\<lparr>pendingInvoice := Some newInvoice, pollCount := 0\<rparr>))"

text \<open>
  \<^verbatim>\<open>getInvoiceStatus(payment_hash)\<close>. The guard
  \<^verbatim>\<open>payment_hash !== pendingInvoice?.payment_hash\<close> holds when no invoice is pending
  (the right side is \<^verbatim>\<open>undefined\<close>) and when the pending invoice has another hash.
  \<^verbatim>\<open>a || "Anonymous"\<close> takes the right side when \<open>a\<close> is \<^verbatim>\<open>undefined\<close> or the empty string.
  The local constant \<^verbatim>\<open>newDonation\<close> is a function of what it reads: the ledger (for the
  next id), the pending invoice and the clock.
\<close>

definition newDonation :: "api_state \<Rightarrow> Invoice \<Rightarrow> string \<Rightarrow> Donation" where
  "newDonation s pending iso_now =
     \<lparr>id' = show_nat (length (mockDonations s) + 1),
      Donation.donor_name =
        (case Invoice.donor_name pending of
           None \<Rightarrow> ''Anonymous''
         | Some n \<Rightarrow> if n = [] then ''Anonymous'' else n),
      Donation.recipient = Invoice.recipient pending,
      Donation.amount_sats = Invoice.amount_sats pending,
      Donation.status = PAID,
      Donation.paid_at = iso_now\<rparr>"

definition getInvoiceStatus :: "string \<Rightarrow> string \<Rightarrow> api_state \<Rightarrow> InvoiceStatus \<times> api_state" where
  "getInvoiceStatus payment_hash' iso_now s =
     (case pendingInvoice s of
        None \<Rightarrow> (\<lparr>InvoiceStatus.status = PENDING, InvoiceStatus.paid_at = None\<rparr>, s)
      | Some pending \<Rightarrow>
          if payment_hash' \<noteq> payment_hash pending
          then (\<lparr>InvoiceStatus.status = PENDING, InvoiceStatus.paid_at = None\<rparr>, s)
          else
            let pc = pollCount s + 1 in
            if pc \<ge> 2 then
              (\<lparr>InvoiceStatus.status = PAID, InvoiceStatus.paid_at = Some iso_now\<rparr>,
               s\<lparr>mockDonations := newDonation s pending iso_now # mockDonations s,
                 pendingInvoice := None,
                 pollCount := 0\<rparr>)
            else (\<lparr>InvoiceStatus.status = PENDING, InvoiceStatus.paid_at = None\<rparr>,
                  s\<lparr>pollCount := pc\<rparr>))"

text \<open>\<^verbatim>\<open>mockDonations.slice(0, 5)\<close>.\<close>

definition getRecentDonations :: "api_state \<Rightarrow> Donation list" where
  "getRecentDonations s = take 5 (mockDonations s)"

record DonationStats =
  totalSats :: int
  donorCount :: nat

text \<open>\<^verbatim>\<open>mockDonations.reduce((acc, donation) => acc + donation.amount_sats, 0)\<close>.\<close>

definition getDonationStats :: "api_state \<Rightarrow> DonationStats" where
  "getDonationStats s =
     \<lparr>totalSats = foldl (\<lambda>acc donation. acc + Donation.amount_sats donation) 0 (mockDonations s),
      donorCount = length (mockDonations s)\<rparr>"

subsection \<open>The backend client\<close>

text \<open>
  The later revision of the API module asks a backend over HTTP. What \<^verbatim>\<open>fetch\<close> settles
  with is an input of the model: \<open>Rejected\<close> when the promise rejects (the backend cannot
  be reached), otherwise \<open>Response ok body\<close> with the flag \<^verbatim>\<open>response.ok\<close> and the value of
  \<^verbatim>\<open>response.json()\<close>, \<open>None\<close> when that promise rejects. A rejection that no handler
  catches reaches the caller as the thrown value.
\<close>

datatype 'a response = Rejected | Response bool "'a option"

datatype thrown = TypeError | SyntaxError | Error string

definition getInvoiceStatus_backend :: "InvoiceStatus response \<Rightarrow> thrown + InvoiceStatus" where
  "getInvoiceStatus_backend response =
     (case response of
        Rejected \<Rightarrow> Inl TypeError
      | Response ok body \<Rightarrow>
          if \<not> ok then Inl (Error ''Failed to check payment status'')
          else (case body of
                  None \<Rightarrow> Inl SyntaxError
                | Some data \<Rightarrow>
                    Inr \<lparr>InvoiceStatus.status = InvoiceStatus.status data,
                         InvoiceStatus.paid_at = InvoiceStatus.paid_at data\<rparr>))"

text \<open>
  \<^verbatim>\<open>confirmPayment\<close> wraps the request in \<^verbatim>\<open>try\<close>/\<^verbatim>\<open>catch\<close>; the handler only logs, and every
  path that does not return the backend's answer falls through to the simulated
  confirmation.
\<close>

definition confirmPayment :: "InvoiceStatus response \<Rightarrow> string \<Rightarrow> InvoiceStatus" where
  "confirmPayment response iso_now =
     (let simulated = \<lparr>InvoiceStatus.status = PAID, InvoiceStatus.paid_at = Some iso_now\<rparr> in
      case response of
        Rejected \<Rightarrow> simulated
      | Response ok body \<Rightarrow>
          if ok then
            (case body of
               None \<Rightarrow> simulated
             | Some data \<Rightarrow>
                 \<lparr>InvoiceStatus.status = InvoiceStatus.status data,
                  InvoiceStatus.paid_at = InvoiceStatus.paid_at data\<rparr>)
          else simulated)"

definition getDonationReceipt :: "DonationReceipt response \<Rightarrow> thrown + DonationReceipt" where
  "getDonationReceipt response =
     (case response of
        Rejected \<Rightarrow> Inl TypeError
      | Response ok body \<Rightarrow>
          if \<not> ok then Inl (Error ''Failed to fetch donation receipt'')
          else (case body of None \<Rightarrow> Inl SyntaxError | Some receipt \<Rightarrow> Inr receipt))"

text \<open>
  The receipt component's \<^verbatim>\<open>fetchReceipt\<close>, as the value it passes to \<^verbatim>\<open>setReceipt\<close>;
  \<open>fallback_receipt\<close> is the object literal of its \<^verbatim>\<open>catch\<close> branch.
\<close>

definition fallback_receipt :: "string \<Rightarrow> int \<Rightarrow> string \<Rightarrow> string option \<Rightarrow> nat \<Rightarrow> string \<Rightarrow> DonationReceipt" where
  "fallback_receipt payment_hash' amount_sats' donor_name' recipient' now iso_now =
     \<lparr>DonationReceipt.id' = ''donation_'' @ show_nat now,
      DonationReceipt.donor_name = donor_name',
      DonationReceipt.recipient = recipient',
      DonationReceipt.amount_sats = amount_sats',
      DonationReceipt.payment_hash = payment_hash',
      DonationReceipt.paid_at = iso_now,
      transaction_id = ''lntx1'' @ take 8 payment_hash' @ ''w'' @ show_int amount_sats',
      network = ''Bitcoin Lightning Network (Testnet)''\<rparr>"

definition fetchReceipt ::
  "string \<Rightarrow> int \<Rightarrow> string \<Rightarrow> string option \<Rightarrow> DonationReceipt response \<Rightarrow> nat \<Rightarrow> string
     \<Rightarrow> DonationReceipt" where
  "fetchReceipt payment_hash' amount_sats' donor_name' recipient' response now iso_now =
     (case getDonationReceipt response of
        Inr receiptData \<Rightarrow> receiptData
      | Inl error \<Rightarrow> fallback_receipt payment_hash' amount_sats' donor_name' recipient' now iso_now)"

text \<open>The backend call fails: no response, a response that is not ok, or an unreadable body.\<close>

definition unavailable :: "'a response \<Rightarrow> bool" where
  "unavailable response =
     (case response of Rejected \<Rightarrow> True | Response ok body \<Rightarrow> \<not> ok \<or> body = None)"

subsection \<open>The donate form (\<^verbatim>\<open>donate-form.tsx\<close>)\<close>

text \<open>
  The amount field of \<^verbatim>\<open>formSchema\<close>:
  \<^verbatim>\<open>z.coerce.number().min(1, ...).max(1000000, ...)\<close>, with the message of the check that
  fails. The form is submitted through \<^verbatim>\<open>form.handleSubmit(onSubmit)\<close>: \<^verbatim>\<open>onSubmit\<close>, which
  passes the values on to \<open>createInvoice\<close>, runs only when the schema accepts them.
\<close>

definition formSchema_amount :: "int \<Rightarrow> string + int" where
  "formSchema_amount amount =
     (if amount < 1 then Inl ''Donation must be at least 1 sat.''
      else if amount > 1000000 then Inl ''Donation cannot exceed 1,000,000 sats.''
      else Inr amount)"

definition handleSubmit ::
  "nat \<Rightarrow> string option \<Rightarrow> string option \<Rightarrow> int \<Rightarrow> api_state \<Rightarrow> (string + Invoice) \<times> api_state" where
  "handleSubmit now name' recipient' amount s =
     (case formSchema_amount amount of
        Inl message \<Rightarrow> (Inl message, s)
      | Inr a \<Rightarrow> (Inr (fst (createInvoice now a name' recipient' s)),
                  snd (createInvoice now a name' recipient' s)))"

subsection \<open>Call histories\<close>

text \<open>
  The module state changes only through \<open>createInvoice\<close> and \<open>getInvoiceStatus\<close>. A
  history is a list of such calls, each with the clock reading it makes; \<open>run\<close> gives
  the state it leaves behind.
\<close>

datatype call =
  CreateInvoice nat int "string option" "string option"
| GetInvoiceStatus string string

fun exec :: "call \<Rightarrow> api_state \<Rightarrow> api_state" where
  "exec (CreateInvoice now a n r) s = snd (createInvoice now a n r s)"
| "exec (GetInvoiceStatus h iso_now) s = snd (getInvoiceStatus h iso_now s)"

fun run :: "call list \<Rightarrow> api_state \<Rightarrow> api_state" where
  "run [] s = s"
| "run (c # cs) s = run cs (exec c s)"

text \<open>\<^verbatim>\<open>pendingInvoice?.payment_hash\<close>, and the payment hash that a call hands out.\<close>

definition pending_hash :: "api_state \<Rightarrow> string option" where
  "pending_hash s = map_option payment_hash (pendingInvoice s)"

fun created_hash :: "call \<Rightarrow> string option" where
  "created_hash (CreateInvoice now a n r) = Some (payment_hash (fst (createInvoice now a n r init_state)))"
| "created_hash (GetInvoiceStatus h iso_now) = None"

abbreviation pending_result :: InvoiceStatus where
  "pending_result \<equiv> \<lparr>InvoiceStatus.status = PENDING, InvoiceStatus.paid_at = None\<rparr>"

subsection \<open>A worked scenario\<close>

text \<open>
  Ann gives 1000 sats to the shelter. The invoice is created at epoch millisecond
  1700000000000, that is 2023-11-14T22:13:20.000Z, and polled every three seconds.
\<close>

definition ann_hash :: string where
  "ann_hash = ''mock_payment_hash_1700000000000''"

definition ann_invoice :: Invoice where
  "ann_invoice = fst (createInvoice 1700000000000 1000 (Some ''Ann'') (Some ''Shelter'') init_state)"

definition ann_created :: api_state where
  "ann_created = snd (createInvoice 1700000000000 1000 (Some ''Ann'') (Some ''Shelter'') init_state)"

definition ann_polled :: api_state where
  "ann_polled = snd (getInvoiceStatus ann_hash ''2023-11-14T22:13:23.000Z'' ann_created)"

definition ann_paid :: api_state where
  "ann_paid = snd (getInvoiceStatus ann_hash ''2023-11-14T22:13:26.000Z'' ann_polled)"

text \<open>
  Bob's invoice follows Ann's while hers is still pending: a second and a half later
  (\<open>bob_created\<close>), or within the same millisecond (\<open>twin_created\<close>).
\<close>

definition twin_created :: api_state where
  "twin_created = snd (createInvoice 1700000000000 2000 (Some ''Bob'') None ann_created)"

definition bob_created :: api_state where
  "bob_created = snd (createInvoice 1700000001500 2000 (Some ''Bob'') None ann_created)"

text \<open>
  Two donors who fill the name field with nothing and with a single space, each polled
  twice.
\<close>

definition blank_created :: "Invoice \<times> api_state" where
  "blank_created = createInvoice 1700000000000 1000 (Some '' '') None init_state"

definition empty_created :: "Invoice \<times> api_state" where
  "empty_created = createInvoice 1700000000000 1000 (Some []) None init_state"

definition poll_twice :: "api_state \<Rightarrow> api_state" where
  "poll_twice s = run [GetInvoiceStatus ann_hash ''2023-11-14T22:13:23.000Z'',
                       GetInvoiceStatus ann_hash ''2023-11-14T22:13:26.000Z''] s"

subsection \<open>Five payments\<close>

text \<open>
  The clock readings of the status calls of a history, in order; the order in which a
  list of donations is most recent first by \<open>paid_at\<close>; and five donors who pay one
  after the other, ten seconds apart.
\<close>

fun poll_times :: "call list \<Rightarrow> string list" where
  "poll_times [] = []"
| "poll_times (CreateInvoice now a n r # cs) = poll_times cs"
| "poll_times (GetInvoiceStatus h iso_now # cs) = iso_now # poll_times cs"

definition five_calls :: "call list" where
  "five_calls =
     [CreateInvoice 1700000000000 1000 (Some ''Ann'') (Some ''Shelter''),
      GetInvoiceStatus ''mock_payment_hash_1700000000000'' ''2023-11-14T22:13:23.000Z'',
      GetInvoiceStatus ''mock_payment_hash_1700000000000'' ''2023-11-14T22:13:26.000Z'',
      CreateInvoice 1700000010000 2000 (Some ''Bob'') None,
      GetInvoiceStatus ''mock_payment_hash_1700000010000'' ''2023-11-14T22:13:33.000Z'',
      GetInvoiceStatus ''mock_payment_hash_1700000010000'' ''2023-11-14T22:13:36.000Z'',
      CreateInvoice 1700000020000 3000 (Some ''Cat'') None,
      GetInvoiceStatus ''mock_payment_hash_1700000020000'' ''2023-11-14T22:13:43.000Z'',
      GetInvoiceStatus ''mock_payment_hash_1700000020000'' ''2023-11-14T22:13:46.000Z'',
      CreateInvoice 1700000030000 4000 (Some ''Dan'') None,
      GetInvoiceStatus ''mock_payment_hash_1700000030000'' ''2023-11-14T22:13:53.000Z'',
      GetInvoiceStatus ''mock_payment_hash_1700000030000'' ''2023-11-14T22:13:56.000Z'',
      CreateInvoice 1700000040000 5000 (Some ''Eve'') None,
      GetInvoiceStatus ''mock_payment_hash_1700000040000'' ''2023-11-14T22:14:03.000Z'',
      GetInvoiceStatus ''mock_payment_hash_1700000040000'' ''2023-11-14T22:14:06.000Z'']"

abbreviation newest_first :: "Donation list \<Rightarrow> bool" where
  "newest_first ds \<equiv> sorted_wrt (\<lambda>a b. Donation.paid_at b \<le> Donation.paid_at a) ds"

definition five_paid :: api_state where
  "five_paid = run five_calls init_state"

section \<open>Properties\<close>

lemma foldl_amounts:
  "foldl (\<lambda>acc donation. acc + Donation.amount_sats donation) a ds
     = a + sum_list (map Donation.amount_sats ds)"
  by (induction ds arbitrary: a) simp_all

subsection \<open>Decimal rendering is injective\<close>

lemma digit_char_inj: "a < 10 \<Longrightarrow> b < 10 \<Longrightarrow> digit_char a = digit_char b \<Longrightarrow> a = b"
proof -
  assume a: "a < 10" and b: "b < 10" and e: "digit_char a = digit_char b"
  have d: "distinct ''0123456789''" by simp
  have "a < length ''0123456789''" and "b < length ''0123456789''" using a b by simp_all
  with d e show "a = b" unfolding digit_char_def by (simp only: nth_eq_iff_index_eq)
qed

lemma show_nat_nonempty: "show_nat n \<noteq> []"
  by (subst show_nat.simps) simp

lemma show_nat_inj: "show_nat m = show_nat n \<Longrightarrow> m = n"
proof (induction m arbitrary: n rule: show_nat.induct)
  case (1 m)
  show ?case
  proof (cases "m < 10")
    case True
    then have m: "show_nat m = [digit_char m]" by (subst show_nat.simps) simp
    show ?thesis
    proof (cases "n < 10")
      case n: True
      then have "show_nat n = [digit_char n]" by (subst show_nat.simps) simp
      with m "1.prems" have "digit_char m = digit_char n" by simp
      with True n show ?thesis by (rule digit_char_inj)
    next
      case n: False
      then have "show_nat n = show_nat (n div 10) @ [digit_char (n mod 10)]"
        by (subst show_nat.simps) simp
      with m "1.prems" have "show_nat (n div 10) = []" by simp
      with show_nat_nonempty show ?thesis by blast
    qed
  next
    case False
    then have m: "show_nat m = show_nat (m div 10) @ [digit_char (m mod 10)]"
      by (subst show_nat.simps) simp
    show ?thesis
    proof (cases "n < 10")
      case n: True
      then have "show_nat n = [digit_char n]" by (subst show_nat.simps) simp
      with m "1.prems" have "show_nat (m div 10) = []" by simp
      with show_nat_nonempty show ?thesis by blast
    next
      case n: False
      then have "show_nat n = show_nat (n div 10) @ [digit_char (n mod 10)]"
        by (subst show_nat.simps) simp
      with m "1.prems" have e: "show_nat (m div 10) = show_nat (n div 10)"
        and d: "digit_char (m mod 10) = digit_char (n mod 10)" by simp_all
      from "1.IH" [OF False e] have "m div 10 = n div 10" .
      moreover from d have "m mod 10 = n mod 10" by (intro digit_char_inj) simp_all
      ultimately show ?thesis by (metis div_mult_mod_eq)
    qed
  qed
qed

subsection \<open>What one call does\<close>

lemma createInvoice_hash:
  "payment_hash (fst (createInvoice now a n r s)) = ''mock_payment_hash_'' @ show_nat now"
  by (simp add: createInvoice_def Let_def)

lemma createInvoice_state:
  "snd (createInvoice now a n r s)
     = s\<lparr>pendingInvoice := Some (fst (createInvoice now a n r s)), pollCount := 0\<rparr>"
  by (simp add: createInvoice_def Let_def)

lemma createInvoice_hash_inj:
  "payment_hash (fst (createInvoice now a n r s)) = payment_hash (fst (createInvoice now' a' n' r' s'))
     \<longleftrightarrow> now = now'"
  by (auto simp: createInvoice_hash dest: show_nat_inj)

lemma getInvoiceStatus_other:
  "pending_hash s \<noteq> Some h \<Longrightarrow> getInvoiceStatus h t s = (pending_result, s)"
  by (auto simp: getInvoiceStatus_def pending_hash_def split: option.splits)

lemma getInvoiceStatus_first:
  "pendingInvoice s = Some p \<Longrightarrow> payment_hash p = h \<Longrightarrow> pollCount s = 0 \<Longrightarrow>
   getInvoiceStatus h t s = (pending_result, s\<lparr>pollCount := 1\<rparr>)"
  by (simp add: getInvoiceStatus_def Let_def)

lemma getInvoiceStatus_paid:
  "pendingInvoice s = Some p \<Longrightarrow> payment_hash p = h \<Longrightarrow> 1 \<le> pollCount s \<Longrightarrow>
   getInvoiceStatus h t s =
     (\<lparr>InvoiceStatus.status = PAID, InvoiceStatus.paid_at = Some t\<rparr>,
      s\<lparr>mockDonations := newDonation s p t # mockDonations s, pendingInvoice := None, pollCount := 0\<rparr>)"
  by (simp add: getInvoiceStatus_def Let_def)

lemma exec_keeps_other:
  assumes "pending_hash s \<noteq> Some h" and "Some h \<noteq> created_hash c"
  shows "pending_hash (exec c s) \<noteq> Some h"
proof (cases c)
  case (CreateInvoice now a n r)
  with assms(2) show ?thesis
    by (auto simp: pending_hash_def createInvoice_state createInvoice_hash)
next
  case (GetInvoiceStatus h' t)
  with assms(1) show ?thesis
    by (auto simp: getInvoiceStatus_def pending_hash_def Let_def split: option.splits)
qed

lemma run_keeps_other:
  "pending_hash s \<noteq> Some h \<Longrightarrow> Some h \<notin> set (map created_hash cs) \<Longrightarrow>
   pending_hash (run cs s) \<noteq> Some h"
  by (induction cs arbitrary: s) (simp_all add: exec_keeps_other)

lemma run_then_other:
  assumes "pending_hash s \<noteq> Some h" and "Some h \<notin> set (map created_hash cs)"
  shows "getInvoiceStatus h t (run cs s) = (pending_result, run cs s)"
  using assms by (intro getInvoiceStatus_other run_keeps_other)

subsection \<open>The scenario, evaluated\<close>

lemma show_nat_ann: "show_nat 1700000000000 = ''1700000000000''"
  by (simp add: show_nat.simps digit_char_def)

lemma show_nat_1000: "show_nat 1000 = ''1000''"
  by (simp add: show_nat.simps digit_char_def)

lemma ann_invoice_eval:
  "ann_invoice =
        \<lparr>invoice = ''ln-testnet-invoice-1000-Ann-mock_payment_hash_1700000000000'',
         payment_hash = ''mock_payment_hash_1700000000000'',
         expires_in = 3600,
         Invoice.donor_name = Some ''Ann'',
         Invoice.recipient = Some ''Shelter'',
         Invoice.amount_sats = 1000,
         qr_code = None\<rparr>"
  by (simp add: ann_invoice_def createInvoice_def Let_def init_state_def show_nat_ann
      show_int_def show_nat_1000 is_space_def)

lemma ann_created_eval:
  "ann_created =
     \<lparr>mockDonations = [],
      pendingInvoice = Some
        \<lparr>invoice = ''ln-testnet-invoice-1000-Ann-mock_payment_hash_1700000000000'',
         payment_hash = ''mock_payment_hash_1700000000000'',
         expires_in = 3600,
         Invoice.donor_name = Some ''Ann'',
         Invoice.recipient = Some ''Shelter'',
         Invoice.amount_sats = 1000,
         qr_code = None\<rparr>,
      pollCount = 0\<rparr>"
  by (simp add: ann_created_def createInvoice_def Let_def init_state_def show_nat_ann
      show_int_def show_nat_1000 is_space_def)

lemma ann_polled_eval: "ann_polled = ann_created\<lparr>pollCount := 1\<rparr>"
  by (simp add: ann_polled_def ann_hash_def getInvoiceStatus_def ann_created_eval)

lemma ann_paid_eval:
  "ann_paid =
     \<lparr>mockDonations =
        [\<lparr>id' = ''1'', Donation.donor_name = ''Ann'', Donation.recipient = Some ''Shelter'',
          Donation.amount_sats = 1000, Donation.status = PAID,
          Donation.paid_at = ''2023-11-14T22:13:26.000Z''\<rparr>],
      pendingInvoice = None,
      pollCount = 0\<rparr>"
  by (simp add: ann_paid_def ann_hash_def getInvoiceStatus_def ann_polled_eval ann_created_eval
      newDonation_def show_nat.simps digit_char_def)

subsection \<open>Invoice expiry field\<close>

text \<open>
  C9. For every valid amount in \<open>[1, 1000000]\<close> the invoice returned by
  \<open>createInvoice\<close> has \<open>expires_in = 3600\<close>: its expiry is 3600 seconds after its
  creation.
\<close>

theorem createInvoice_expires_in:
  assumes "1 \<le> amount" and "amount \<le> 1000000"
  shows "expires_in (fst (createInvoice now amount name rcp s)) = 3600"
  by (simp add: createInvoice_def Let_def)

theorem createInvoice_expires_in_witness:
  "(1::int) \<le> 1000 \<and> (1000::int) \<le> 1000000 \<and>
   expires_in (fst (createInvoice 1700000000000 1000 (Some ''Ann'') (Some ''Shelter'') init_state)) = 3600"
  using createInvoice_expires_in [of 1000 1700000000000 "Some ''Ann''" "Some ''Shelter''" init_state]
  by simp

subsection \<open>Aggregate statistics\<close>

text \<open>
  C5. In every state of the module, \<open>getDonationStats\<close> returns as \<open>totalSats\<close> the sum
  of \<open>amount_sats\<close> over all donations of the ledger and as \<open>donorCount\<close> their number:
  the aggregates are a fresh scan of \<open>mockDonations\<close>, nothing is cached.
\<close>

theorem getDonationStats_scan:
  "totalSats (getDonationStats s) = (\<Sum>d\<leftarrow>mockDonations s. Donation.amount_sats d) \<and>
   donorCount (getDonationStats s) = length (mockDonations s)"
  by (simp add: getDonationStats_def foldl_amounts)

subsection \<open>Status of an identifier that was never created\<close>

text \<open>
  C2, as the code has it. After any history of calls from the initial state in which no
  invoice was created under the payment identifier \<open>h\<close>, \<open>getInvoiceStatus h\<close> returns
  \<open>PENDING\<close> without a \<open>paid_at\<close> and changes nothing. The result type has the three
  outcomes \<open>PENDING\<close>, \<open>PAID\<close>, \<open>EXPIRED\<close> only; there is no \<open>NotFound\<close>.
\<close>

theorem getInvoiceStatus_never_created:
  assumes "Some h \<notin> set (map created_hash cs)"
  shows "getInvoiceStatus h t (run cs init_state)
           = (\<lparr>InvoiceStatus.status = PENDING, InvoiceStatus.paid_at = None\<rparr>, run cs init_state)"
proof -
  have "pending_hash init_state \<noteq> Some h"
    by (simp add: pending_hash_def init_state_def)
  then show ?thesis using assms by (rule run_then_other)
qed

theorem getInvoiceStatus_never_created_witness:
  "Some ''never_created'' \<notin> set (map created_hash
       [CreateInvoice 1700000000000 1000 (Some ''Ann'') (Some ''Shelter''),
        GetInvoiceStatus ''mock_payment_hash_1700000000000'' ''2023-11-14T22:13:23.000Z'']) \<and>
   getInvoiceStatus ''never_created'' ''2023-11-14T22:13:26.000Z''
       (run [CreateInvoice 1700000000000 1000 (Some ''Ann'') (Some ''Shelter''),
             GetInvoiceStatus ''mock_payment_hash_1700000000000'' ''2023-11-14T22:13:23.000Z'']
          init_state)
     = (\<lparr>InvoiceStatus.status = PENDING, InvoiceStatus.paid_at = None\<rparr>,
        run [CreateInvoice 1700000000000 1000 (Some ''Ann'') (Some ''Shelter''),
             GetInvoiceStatus ''mock_payment_hash_1700000000000'' ''2023-11-14T22:13:23.000Z'']
          init_state)"
proof -
  have h: "Some ''never_created'' \<notin> set (map created_hash
       [CreateInvoice 1700000000000 1000 (Some ''Ann'') (Some ''Shelter''),
        GetInvoiceStatus ''mock_payment_hash_1700000000000'' ''2023-11-14T22:13:23.000Z''])"
    by (simp add: createInvoice_hash)
  from h getInvoiceStatus_never_created [OF h] show ?thesis by simp
qed

text \<open>
  C2 as stated fails: in the initial state, where nothing was ever created, the status of
  an unknown identifier is \<open>PENDING\<close>, one of the three ordinary outcomes.
\<close>

theorem getInvoiceStatus_unknown_counterexample:
  "InvoiceStatus.status (fst (getInvoiceStatus ''never_created'' ''2023-11-14T22:13:20.000Z'' init_state))
     = PENDING"
  by (simp add: getInvoiceStatus_def init_state_def)

subsection \<open>Promotion of a paid invoice\<close>

text \<open>
  C1, as the code has it. The stub counts an invoice as paid from its second poll on
  (\<open>1 \<le> pollCount\<close> before the call). That call returns \<open>PAID\<close> with the clock reading
  as \<open>paid_at\<close> and puts exactly one donation, with the invoice's amount, at the head of
  the ledger, so \<open>donorCount\<close> grows by exactly 1 and \<open>totalSats\<close> by exactly the amount.
  Every later call for the same identifier, after any calls that do not create an invoice
  under it again, returns \<open>PENDING\<close> without a \<open>paid_at\<close> (not \<open>PAID\<close>) and leaves the
  state, hence the ledger and both aggregates, unchanged.
\<close>

theorem getInvoiceStatus_paid_once:
  assumes "pendingInvoice s = Some p" and "payment_hash p = h" and "1 \<le> pollCount s"
    and "getInvoiceStatus h t s = (r, s')"
  shows "InvoiceStatus.status r = PAID \<and> InvoiceStatus.paid_at r = Some t
     \<and> mockDonations s' = newDonation s p t # mockDonations s
     \<and> Donation.amount_sats (newDonation s p t) = Invoice.amount_sats p
     \<and> donorCount (getDonationStats s') = donorCount (getDonationStats s) + 1
     \<and> totalSats (getDonationStats s') = totalSats (getDonationStats s) + Invoice.amount_sats p
     \<and> (\<forall>cs t'. Some h \<notin> set (map created_hash cs) \<longrightarrow>
           getInvoiceStatus h t' (run cs s')
             = (\<lparr>InvoiceStatus.status = PENDING, InvoiceStatus.paid_at = None\<rparr>, run cs s'))"
proof -
  from getInvoiceStatus_paid [OF assms(1-3), of t] assms(4)
  have r: "r = \<lparr>InvoiceStatus.status = PAID, InvoiceStatus.paid_at = Some t\<rparr>"
    and s': "s' = s\<lparr>mockDonations := newDonation s p t # mockDonations s,
                     pendingInvoice := None, pollCount := 0\<rparr>"
    by simp_all
  have "pending_hash s' \<noteq> Some h" by (simp add: s' pending_hash_def)
  then have later: "\<forall>cs t'. Some h \<notin> set (map created_hash cs) \<longrightarrow>
      getInvoiceStatus h t' (run cs s') = (pending_result, run cs s')"
    by (blast intro: run_then_other)
  have stats: "donorCount (getDonationStats s') = donorCount (getDonationStats s) + 1"
    "totalSats (getDonationStats s') = totalSats (getDonationStats s) + Invoice.amount_sats p"
    by (simp_all add: s' getDonationStats_def foldl_amounts newDonation_def)
  have "mockDonations s' = newDonation s p t # mockDonations s" by (simp add: s')
  moreover have "Donation.amount_sats (newDonation s p t) = Invoice.amount_sats p"
    by (simp add: newDonation_def)
  ultimately show ?thesis using r stats later by simp
qed

theorem getInvoiceStatus_paid_once_witness:
  "pendingInvoice ann_polled = Some ann_invoice \<and> payment_hash ann_invoice = ann_hash \<and>
   1 \<le> pollCount ann_polled \<and>
   InvoiceStatus.status (fst (getInvoiceStatus ann_hash ''2023-11-14T22:13:26.000Z'' ann_polled)) = PAID \<and>
   InvoiceStatus.paid_at (fst (getInvoiceStatus ann_hash ''2023-11-14T22:13:26.000Z'' ann_polled))
     = Some ''2023-11-14T22:13:26.000Z'' \<and>
   donorCount (getDonationStats ann_paid) = donorCount (getDonationStats ann_polled) + 1 \<and>
   totalSats (getDonationStats ann_paid) = totalSats (getDonationStats ann_polled) + 1000 \<and>
   getInvoiceStatus ann_hash ''2023-11-14T22:13:32.000Z''
       (run [GetInvoiceStatus ann_hash ''2023-11-14T22:13:29.000Z''] ann_paid)
     = (\<lparr>InvoiceStatus.status = PENDING, InvoiceStatus.paid_at = None\<rparr>,
        run [GetInvoiceStatus ann_hash ''2023-11-14T22:13:29.000Z''] ann_paid)"
proof -
  have h1: "pendingInvoice ann_polled = Some ann_invoice"
    by (simp add: ann_polled_eval ann_created_eval ann_invoice_eval)
  have h2: "payment_hash ann_invoice = ann_hash"
    by (simp add: ann_invoice_eval ann_hash_def)
  have h3: "1 \<le> pollCount ann_polled"
    by (simp add: ann_polled_eval)
  have h4: "getInvoiceStatus ann_hash ''2023-11-14T22:13:26.000Z'' ann_polled
      = (fst (getInvoiceStatus ann_hash ''2023-11-14T22:13:26.000Z'' ann_polled), ann_paid)"
    by (simp add: ann_paid_def)
  have h5: "Some ann_hash \<notin> set (map created_hash [GetInvoiceStatus ann_hash ''2023-11-14T22:13:29.000Z''])"
    by simp
  have a: "Invoice.amount_sats ann_invoice = 1000"
    by (simp add: ann_invoice_eval)
  note paid = getInvoiceStatus_paid_once [OF h1 h2 h3 h4]
  from paid h5 have "getInvoiceStatus ann_hash ''2023-11-14T22:13:32.000Z''
       (run [GetInvoiceStatus ann_hash ''2023-11-14T22:13:29.000Z''] ann_paid)
     = (pending_result, run [GetInvoiceStatus ann_hash ''2023-11-14T22:13:29.000Z''] ann_paid)"
    by blast
  with paid h1 h2 h3 a show ?thesis by simp
qed

text \<open>
  C1 as stated fails on its second half: Ann's second poll returns \<open>PAID\<close>, and the poll
  after it, for the same identifier, returns \<open>PENDING\<close> with no \<open>paid_at\<close>.
\<close>

theorem getInvoiceStatus_paid_once_counterexample:
  "InvoiceStatus.status (fst (getInvoiceStatus ann_hash ''2023-11-14T22:13:26.000Z'' ann_polled)) = PAID \<and>
   InvoiceStatus.status (fst (getInvoiceStatus ann_hash ''2023-11-14T22:13:29.000Z'' ann_paid)) = PENDING \<and>
   InvoiceStatus.paid_at (fst (getInvoiceStatus ann_hash ''2023-11-14T22:13:29.000Z'' ann_paid)) = None"
  by (simp add: getInvoiceStatus_def ann_paid_eval ann_polled_eval ann_created_eval ann_hash_def)

subsection \<open>Polling after the hour has passed\<close>

text \<open>
  C4, as the code has it. \<open>getInvoiceStatus\<close> never compares a clock with the invoice's
  expiry. For a stored, not yet paid invoice polled at any time, also strictly after its
  hour has passed, the result is never \<open>EXPIRED\<close>: the first poll returns \<open>PENDING\<close> and
  leaves the invoice in the store (only \<open>pollCount\<close> becomes 1), a later poll returns
  \<open>PAID\<close> and promotes it; and neither the status returned nor what is left in the store
  depends on the clock reading of the call.
\<close>

theorem getInvoiceStatus_no_expiry:
  assumes "pendingInvoice s = Some p" and "payment_hash p = h"
  shows "InvoiceStatus.status (fst (getInvoiceStatus h t s)) \<noteq> EXPIRED
     \<and> (pollCount s = 0 \<longrightarrow>
           getInvoiceStatus h t s
             = (\<lparr>InvoiceStatus.status = PENDING, InvoiceStatus.paid_at = None\<rparr>, s\<lparr>pollCount := 1\<rparr>))
     \<and> (1 \<le> pollCount s \<longrightarrow>
           InvoiceStatus.status (fst (getInvoiceStatus h t s)) = PAID \<and>
           mockDonations (snd (getInvoiceStatus h t s)) = newDonation s p t # mockDonations s)
     \<and> (\<forall>t'. InvoiceStatus.status (fst (getInvoiceStatus h t' s))
                = InvoiceStatus.status (fst (getInvoiceStatus h t s)) \<and>
              pendingInvoice (snd (getInvoiceStatus h t' s))
                = pendingInvoice (snd (getInvoiceStatus h t s)))"
  using assms by (simp add: getInvoiceStatus_def Let_def)

theorem getInvoiceStatus_no_expiry_witness:
  "pendingInvoice ann_created = Some ann_invoice \<and> payment_hash ann_invoice = ann_hash \<and>
   pollCount ann_created = 0 \<and>
   InvoiceStatus.status (fst (getInvoiceStatus ann_hash ''2023-11-14T23:13:20.001Z'' ann_created)) \<noteq> EXPIRED \<and>
   getInvoiceStatus ann_hash ''2023-11-14T23:13:20.001Z'' ann_created
     = (\<lparr>InvoiceStatus.status = PENDING, InvoiceStatus.paid_at = None\<rparr>, ann_created\<lparr>pollCount := 1\<rparr>)"
proof -
  have h1: "pendingInvoice ann_created = Some ann_invoice"
    by (simp add: ann_created_eval ann_invoice_eval)
  have h2: "payment_hash ann_invoice = ann_hash"
    by (simp add: ann_invoice_eval ann_hash_def)
  have h3: "pollCount ann_created = 0"
    by (simp add: ann_created_eval)
  from getInvoiceStatus_no_expiry [OF h1 h2, of "''2023-11-14T23:13:20.001Z''"] h1 h2 h3
  show ?thesis by simp
qed

text \<open>
  C4 as stated fails: Ann's invoice, created at 22:13:20.000 with \<open>expires_in = 3600\<close>,
  is polled for the first time at 23:13:20.001, one millisecond after its expiry. The
  call returns \<open>PENDING\<close> and the invoice is still in the store.
\<close>

theorem getInvoiceStatus_expiry_counterexample:
  "expires_in ann_invoice = 3600 \<and>
   InvoiceStatus.status (fst (getInvoiceStatus ann_hash ''2023-11-14T23:13:20.001Z'' ann_created)) = PENDING \<and>
   pendingInvoice (snd (getInvoiceStatus ann_hash ''2023-11-14T23:13:20.001Z'' ann_created)) = Some ann_invoice"
  by (simp add: getInvoiceStatus_def ann_created_eval ann_invoice_eval ann_hash_def)

subsection \<open>One pending invoice at a time\<close>

text \<open>
  C10, as the code has it. Every \<open>createInvoice\<close> overwrites the one \<open>pendingInvoice\<close>
  slot. After a second \<open>createInvoice\<close> whose \<^verbatim>\<open>Date.now()\<close> differs from the first's, so
  that the two payment hashes differ, \<open>getInvoiceStatus\<close> for the first invoice's hash
  returns \<open>PENDING\<close> and changes nothing, after any later calls that do not hand out that
  hash again: no poll for the first hash ever promotes anything into the ledger.
\<close>

theorem createInvoice_single_slot:
  assumes "createInvoice now1 a1 n1 r1 s = (inv1, s1)"
    and "createInvoice now2 a2 n2 r2 s1 = (inv2, s2)"
    and "now2 \<noteq> now1"
    and "Some (payment_hash inv1) \<notin> set (map created_hash cs)"
  shows "pendingInvoice s1 = Some inv1 \<and> pendingInvoice s2 = Some inv2 \<and>
     getInvoiceStatus (payment_hash inv1) t (run cs s2)
       = (\<lparr>InvoiceStatus.status = PENDING, InvoiceStatus.paid_at = None\<rparr>, run cs s2)"
proof -
  have inv1: "inv1 = fst (createInvoice now1 a1 n1 r1 s)"
    and s1: "s1 = snd (createInvoice now1 a1 n1 r1 s)"
    using assms(1) by simp_all
  have inv2: "inv2 = fst (createInvoice now2 a2 n2 r2 s1)"
    and s2: "s2 = snd (createInvoice now2 a2 n2 r2 s1)"
    using assms(2) by simp_all
  have slot1: "pendingInvoice s1 = Some inv1"
    by (simp add: s1 inv1 createInvoice_state)
  have slot2: "pendingInvoice s2 = Some inv2"
    by (simp add: s2 inv2 createInvoice_state)
  have "payment_hash inv2 \<noteq> payment_hash inv1"
    using assms(3) by (simp add: inv1 inv2 createInvoice_hash_inj)
  then have "pending_hash s2 \<noteq> Some (payment_hash inv1)"
    by (simp add: pending_hash_def slot2)
  then have "getInvoiceStatus (payment_hash inv1) t (run cs s2) = (pending_result, run cs s2)"
    using assms(4) by (rule run_then_other)
  with slot1 slot2 show ?thesis by simp
qed

theorem createInvoice_single_slot_witness:
  "(1700000001500::nat) \<noteq> 1700000000000 \<and>
   Some (payment_hash ann_invoice) \<notin> set (map created_hash
      [GetInvoiceStatus ann_hash ''2023-11-14T22:13:23.000Z'',
       GetInvoiceStatus ann_hash ''2023-11-14T22:13:26.000Z'']) \<and>
   pendingInvoice bob_created
     = Some (fst (createInvoice 1700000001500 2000 (Some ''Bob'') None ann_created)) \<and>
   getInvoiceStatus (payment_hash ann_invoice) ''2023-11-14T22:13:29.000Z''
      (run [GetInvoiceStatus ann_hash ''2023-11-14T22:13:23.000Z'',
            GetInvoiceStatus ann_hash ''2023-11-14T22:13:26.000Z''] bob_created)
     = (\<lparr>InvoiceStatus.status = PENDING, InvoiceStatus.paid_at = None\<rparr>,
        run [GetInvoiceStatus ann_hash ''2023-11-14T22:13:23.000Z'',
             GetInvoiceStatus ann_hash ''2023-11-14T22:13:26.000Z''] bob_created)"
proof -
  have h1: "createInvoice 1700000000000 1000 (Some ''Ann'') (Some ''Shelter'') init_state
      = (ann_invoice, ann_created)"
    by (simp add: ann_invoice_def ann_created_def)
  have h2: "createInvoice 1700000001500 2000 (Some ''Bob'') None ann_created
      = (fst (createInvoice 1700000001500 2000 (Some ''Bob'') None ann_created), bob_created)"
    by (simp add: bob_created_def)
  have h3: "(1700000001500::nat) \<noteq> 1700000000000" by simp
  have h4: "Some (payment_hash ann_invoice) \<notin> set (map created_hash
      [GetInvoiceStatus ann_hash ''2023-11-14T22:13:23.000Z'',
       GetInvoiceStatus ann_hash ''2023-11-14T22:13:26.000Z''])"
    by simp
  from createInvoice_single_slot [OF h1 h2 h3 h4] h3 h4 show ?thesis by simp
qed

text \<open>
  C10 as stated fails when both invoices are created within the same millisecond: the
  payment hash is \<^verbatim>\<open>mock_payment_hash_${Date.now()}\<close>, so Bob's invoice gets Ann's hash,
  and the second poll for her hash returns \<open>PAID\<close> and records Bob's donation.
\<close>

theorem createInvoice_same_millisecond_counterexample:
  "payment_hash ann_invoice = ann_hash \<and>
   InvoiceStatus.status
     (fst (getInvoiceStatus ann_hash ''2023-11-14T22:13:26.000Z''
        (snd (getInvoiceStatus ann_hash ''2023-11-14T22:13:23.000Z'' twin_created)))) = PAID \<and>
   map Donation.donor_name (mockDonations
        (snd (getInvoiceStatus ann_hash ''2023-11-14T22:13:26.000Z''
        (snd (getInvoiceStatus ann_hash ''2023-11-14T22:13:23.000Z'' twin_created))))) = [''Bob'']"
proof -
  have p: "pendingInvoice twin_created
      = Some (fst (createInvoice 1700000000000 2000 (Some ''Bob'') None ann_created))"
    and c: "pollCount twin_created = 0" and m: "mockDonations twin_created = []"
    by (simp_all add: twin_created_def createInvoice_state ann_created_eval)
  have h: "payment_hash (fst (createInvoice 1700000000000 2000 (Some ''Bob'') None ann_created)) = ann_hash"
    by (simp add: createInvoice_hash show_nat_ann ann_hash_def)
  have n: "Invoice.donor_name (fst (createInvoice 1700000000000 2000 (Some ''Bob'') None ann_created)) = Some ''Bob''"
    by (simp add: createInvoice_def Let_def)
  have first: "getInvoiceStatus ann_hash ''2023-11-14T22:13:23.000Z'' twin_created
      = (pending_result, twin_created\<lparr>pollCount := 1\<rparr>)"
    using p h c by (rule getInvoiceStatus_first)
  have "getInvoiceStatus ann_hash ''2023-11-14T22:13:26.000Z'' (twin_created\<lparr>pollCount := 1\<rparr>)
      = (\<lparr>InvoiceStatus.status = PAID, InvoiceStatus.paid_at = Some ''2023-11-14T22:13:26.000Z''\<rparr>,
         twin_created\<lparr>pollCount := 1\<rparr>
           \<lparr>mockDonations := newDonation (twin_created\<lparr>pollCount := 1\<rparr>)
               (fst (createInvoice 1700000000000 2000 (Some ''Bob'') None ann_created))
               ''2023-11-14T22:13:26.000Z'' # mockDonations (twin_created\<lparr>pollCount := 1\<rparr>),
            pendingInvoice := None, pollCount := 0\<rparr>)"
    by (rule getInvoiceStatus_paid) (simp_all add: p h)
  with first show ?thesis
    by (simp add: m n newDonation_def ann_invoice_eval ann_hash_def)
qed

subsection \<open>Amounts\<close>

text \<open>
  C3, as the code has it. \<open>createInvoice\<close> checks nothing: for every amount, also 0 and
  1000001, it succeeds, returns an invoice of that amount and stores it as the pending
  invoice. The range \<open>[1, 1000000]\<close> is the donate form's: a submitted amount outside it
  is rejected with a validation message, \<open>createInvoice\<close> is not called and the state is
  unchanged; an amount inside it is passed on to \<open>createInvoice\<close>, which succeeds.
\<close>

theorem createInvoice_any_amount:
  "createInvoice now amount n r s
     = (fst (createInvoice now amount n r s),
        s\<lparr>pendingInvoice := Some (fst (createInvoice now amount n r s)), pollCount := 0\<rparr>)
   \<and> Invoice.amount_sats (fst (createInvoice now amount n r s)) = amount
   \<and> (amount < 1 \<or> 1000000 < amount \<longrightarrow>
         (\<exists>message. handleSubmit now n r amount s = (Inl message, s)))
   \<and> (1 \<le> amount \<and> amount \<le> 1000000 \<longrightarrow>
         handleSubmit now n r amount s
           = (Inr (fst (createInvoice now amount n r s)), snd (createInvoice now amount n r s)))"
proof -
  have "createInvoice now amount n r s
     = (fst (createInvoice now amount n r s),
        s\<lparr>pendingInvoice := Some (fst (createInvoice now amount n r s)), pollCount := 0\<rparr>)"
    by (simp add: createInvoice_def Let_def)
  moreover have "Invoice.amount_sats (fst (createInvoice now amount n r s)) = amount"
    by (simp add: createInvoice_def Let_def)
  moreover have "amount < 1 \<or> 1000000 < amount \<longrightarrow>
         (\<exists>message. handleSubmit now n r amount s = (Inl message, s))"
    by (auto simp: handleSubmit_def formSchema_amount_def)
  moreover have "1 \<le> amount \<and> amount \<le> 1000000 \<longrightarrow>
         handleSubmit now n r amount s
           = (Inr (fst (createInvoice now amount n r s)), snd (createInvoice now amount n r s))"
    by (simp add: handleSubmit_def formSchema_amount_def)
  ultimately show ?thesis by (intro conjI)
qed

theorem createInvoice_any_amount_witness:
  "((0::int) < 1 \<or> (1000000::int) < 0) \<and>
   (\<exists>message. handleSubmit 1700000000000 (Some ''Ann'') (Some ''Shelter'') 0 init_state
       = (Inl message, init_state)) \<and>
   (1::int) \<le> 1000 \<and> (1000::int) \<le> 1000000 \<and>
   handleSubmit 1700000000000 (Some ''Ann'') (Some ''Shelter'') 1000 init_state
     = (Inr ann_invoice, ann_created)"
proof -
  have lo: "(0::int) < 1 \<or> (1000000::int) < 0" by simp
  have ok: "(1::int) \<le> 1000 \<and> (1000::int) \<le> 1000000" by simp
  from createInvoice_any_amount [of 1700000000000 0 "Some ''Ann''" "Some ''Shelter''" init_state] lo
  have rejected: "\<exists>message. handleSubmit 1700000000000 (Some ''Ann'') (Some ''Shelter'') 0 init_state
       = (Inl message, init_state)"
    by blast
  from createInvoice_any_amount [of 1700000000000 1000 "Some ''Ann''" "Some ''Shelter''" init_state] ok
  have "handleSubmit 1700000000000 (Some ''Ann'') (Some ''Shelter'') 1000 init_state
     = (Inr ann_invoice, ann_created)"
    unfolding ann_invoice_def ann_created_def by blast
  with rejected lo ok show ?thesis by blast
qed

text \<open>
  C3 as stated fails: called with 0 or with 1000001, \<open>createInvoice\<close> returns an invoice
  of that amount and stores it.
\<close>

theorem createInvoice_invalid_amount_counterexample:
  "Invoice.amount_sats (fst (createInvoice 1700000000000 0 (Some ''Ann'') (Some ''Shelter'') init_state)) = 0 \<and>
   pendingInvoice (snd (createInvoice 1700000000000 0 (Some ''Ann'') (Some ''Shelter'') init_state))
     = Some (fst (createInvoice 1700000000000 0 (Some ''Ann'') (Some ''Shelter'') init_state)) \<and>
   Invoice.amount_sats (fst (createInvoice 1700000000000 1000001 (Some ''Ann'') (Some ''Shelter'') init_state))
     = 1000001 \<and>
   pendingInvoice (snd (createInvoice 1700000000000 1000001 (Some ''Ann'') (Some ''Shelter'') init_state))
     = Some (fst (createInvoice 1700000000000 1000001 (Some ''Ann'') (Some ''Shelter'') init_state))"
  by (simp add: createInvoice_def Let_def)

subsection \<open>Donor names\<close>

lemma create_poll_poll:
  assumes "createInvoice now a dn r s = (created, s1)"
    and "run [GetInvoiceStatus (payment_hash created) t1, GetInvoiceStatus (payment_hash created) t2] s1 = s3"
  shows "Invoice.donor_name created = Some (case dn of None \<Rightarrow> ''Anonymous'' | Some n \<Rightarrow> n) \<and>
     (\<exists>d. mockDonations s3 = d # mockDonations s \<and>
          Donation.donor_name d =
            (case dn of None \<Rightarrow> ''Anonymous'' | Some n \<Rightarrow> if n = [] then ''Anonymous'' else n))"
proof -
  have created: "created = fst (createInvoice now a dn r s)" and s1: "s1 = snd (createInvoice now a dn r s)"
    using assms(1) by simp_all
  have name: "Invoice.donor_name created = Some (case dn of None \<Rightarrow> ''Anonymous'' | Some n \<Rightarrow> n)"
    by (simp add: created createInvoice_def Let_def)
  have p: "pendingInvoice s1 = Some created" and c: "pollCount s1 = 0"
    and m: "mockDonations s1 = mockDonations s"
    by (simp_all add: s1 created createInvoice_state)
  have first: "getInvoiceStatus (payment_hash created) t1 s1 = (pending_result, s1\<lparr>pollCount := 1\<rparr>)"
    using p refl c by (rule getInvoiceStatus_first)
  have "getInvoiceStatus (payment_hash created) t2 (s1\<lparr>pollCount := 1\<rparr>)
      = (\<lparr>InvoiceStatus.status = PAID, InvoiceStatus.paid_at = Some t2\<rparr>,
         s1\<lparr>pollCount := 1\<rparr>
           \<lparr>mockDonations := newDonation (s1\<lparr>pollCount := 1\<rparr>) created t2
               # mockDonations (s1\<lparr>pollCount := 1\<rparr>),
            pendingInvoice := None, pollCount := 0\<rparr>)"
    by (rule getInvoiceStatus_paid) (simp_all add: p)
  with first assms(2)
  have "mockDonations s3 = newDonation (s1\<lparr>pollCount := 1\<rparr>) created t2 # mockDonations s"
    by (auto simp: m)
  moreover have "Donation.donor_name (newDonation (s1\<lparr>pollCount := 1\<rparr>) created t2)
      = (case dn of None \<Rightarrow> ''Anonymous'' | Some n \<Rightarrow> if n = [] then ''Anonymous'' else n)"
    by (simp add: newDonation_def name split: option.splits)
  ultimately show ?thesis using name by blast
qed

text \<open>
  C8, as the code has it. With no \<open>donor_name\<close> argument the returned invoice carries
  \<open>Anonymous\<close>; a name that is given, also the empty one and one of whitespace only, is
  carried by the invoice as it is. The donation promoted from the invoice carries
  \<open>Anonymous\<close> when the name was absent or empty, and the given name otherwise, so a
  name of whitespace only stays as it is.
\<close>

theorem createInvoice_donor_name:
  assumes "createInvoice now a dn r s = (created, s1)"
    and "run [GetInvoiceStatus (payment_hash created) t1, GetInvoiceStatus (payment_hash created) t2] s1 = s3"
  shows "Invoice.donor_name created = Some (case dn of None \<Rightarrow> ''Anonymous'' | Some n \<Rightarrow> n) \<and>
     (\<exists>d. mockDonations s3 = d # mockDonations s \<and>
          Donation.donor_name d =
            (case dn of None \<Rightarrow> ''Anonymous'' | Some n \<Rightarrow> if n = [] then ''Anonymous'' else n))"
  using assms by (rule create_poll_poll)

lemma blank_hash: "payment_hash (fst blank_created) = ann_hash"
  by (simp add: blank_created_def createInvoice_hash show_nat_ann ann_hash_def)

lemma empty_hash: "payment_hash (fst empty_created) = ann_hash"
  by (simp add: empty_created_def createInvoice_hash show_nat_ann ann_hash_def)

theorem createInvoice_donor_name_witness:
  "Invoice.donor_name (fst empty_created) = Some [] \<and>
   map Donation.donor_name (mockDonations (poll_twice (snd empty_created))) = [''Anonymous'']"
proof -
  have h1: "createInvoice 1700000000000 1000 (Some []) None init_state
      = (fst empty_created, snd empty_created)"
    by (simp add: empty_created_def)
  have h2: "run [GetInvoiceStatus (payment_hash (fst empty_created)) ''2023-11-14T22:13:23.000Z'',
                 GetInvoiceStatus (payment_hash (fst empty_created)) ''2023-11-14T22:13:26.000Z'']
              (snd empty_created) = poll_twice (snd empty_created)"
    by (simp only: empty_hash poll_twice_def)
  from createInvoice_donor_name [OF h1 h2] show ?thesis
    by (auto simp: init_state_def)
qed

text \<open>
  C8 as stated fails: an empty name gives an invoice with the empty name, and a name of
  one space gives an invoice and a donation with that name.
\<close>

theorem createInvoice_donor_name_counterexample:
  "Invoice.donor_name (fst empty_created) = Some [] \<and>
   Invoice.donor_name (fst blank_created) = Some '' '' \<and>
   map Donation.donor_name (mockDonations (poll_twice (snd blank_created))) = ['' '']"
proof -
  have h1: "createInvoice 1700000000000 1000 (Some '' '') None init_state
      = (fst blank_created, snd blank_created)"
    by (simp add: blank_created_def)
  have h2: "run [GetInvoiceStatus (payment_hash (fst blank_created)) ''2023-11-14T22:13:23.000Z'',
                 GetInvoiceStatus (payment_hash (fst blank_created)) ''2023-11-14T22:13:26.000Z'']
              (snd blank_created) = poll_twice (snd blank_created)"
    by (simp only: blank_hash poll_twice_def)
  have "Invoice.donor_name (fst empty_created) = Some []"
    by (simp add: empty_created_def createInvoice_def Let_def)
  with create_poll_poll [OF h1 h2] show ?thesis
    by (auto simp: init_state_def)
qed

subsection \<open>Recent donations\<close>

lemma exec_ledger:
  "mockDonations (exec c s) = mockDonations s \<or>
   (\<exists>h t p. c = GetInvoiceStatus h t \<and> mockDonations (exec c s) = newDonation s p t # mockDonations s)"
  by (cases c) (auto simp: createInvoice_state getInvoiceStatus_def Let_def split: option.splits)

lemma newDonation_paid_at: "Donation.paid_at (newDonation s p t) = t"
  by (simp add: newDonation_def)

lemma newDonation_id: "id' (newDonation s p t) = show_nat (Suc (length (mockDonations s)))"
  by (simp add: newDonation_def)

lemma run_newest_first:
  assumes "sorted (poll_times cs)"
    and "newest_first (mockDonations s)"
    and "\<forall>d \<in> set (mockDonations s). \<forall>t \<in> set (poll_times cs). Donation.paid_at d \<le> t"
  shows "newest_first (mockDonations (run cs s))"
  using assms
proof (induction cs arbitrary: s)
  case Nil
  then show ?case by simp
next
  case (Cons c cs)
  have tail: "sorted (poll_times cs)"
    using Cons.prems(1) by (cases c) simp_all
  have sub: "set (poll_times cs) \<subseteq> set (poll_times (c # cs))"
    by (cases c) auto
  from exec_ledger [of c s] consider
    (same) "mockDonations (exec c s) = mockDonations s"
  | (grown) h t p where "c = GetInvoiceStatus h t"
      "mockDonations (exec c s) = newDonation s p t # mockDonations s"
    by blast
  then have "newest_first (mockDonations (exec c s)) \<and>
      (\<forall>d \<in> set (mockDonations (exec c s)). \<forall>t \<in> set (poll_times cs). Donation.paid_at d \<le> t)"
  proof cases
    case same
    with Cons.prems(2,3) sub show ?thesis by auto
  next
    case grown
    from grown(1) Cons.prems(1) have later: "\<forall>u \<in> set (poll_times cs). t \<le> u"
      by simp
    from grown(1) Cons.prems(3) have older: "\<forall>d \<in> set (mockDonations s). Donation.paid_at d \<le> t"
      by simp
    from Cons.prems(2,3) sub grown(2) later older show ?thesis
      by (auto simp: newDonation_paid_at)
  qed
  with Cons.IH [OF tail] show ?case by simp
qed

lemma exec_ids:
  assumes "map id' (mockDonations s) = map show_nat (rev [1..<Suc (length (mockDonations s))])"
  shows "map id' (mockDonations (exec c s))
     = map show_nat (rev [1..<Suc (length (mockDonations (exec c s)))])"
  using exec_ledger [of c s] assms by (auto simp: newDonation_id)

lemma run_ids:
  "map id' (mockDonations s) = map show_nat (rev [1..<Suc (length (mockDonations s))]) \<Longrightarrow>
   map id' (mockDonations (run cs s))
     = map show_nat (rev [1..<Suc (length (mockDonations (run cs s)))])"
  by (induction cs arbitrary: s) (simp_all add: exec_ids)

lemma five_paid_eval:
  "five_paid =
     \<lparr>mockDonations =
        [\<lparr>id' = ''5'', Donation.donor_name = ''Eve'', Donation.recipient = None,
          Donation.amount_sats = 5000, Donation.status = PAID,
          Donation.paid_at = ''2023-11-14T22:14:06.000Z''\<rparr>,
         \<lparr>id' = ''4'', Donation.donor_name = ''Dan'', Donation.recipient = None,
          Donation.amount_sats = 4000, Donation.status = PAID,
          Donation.paid_at = ''2023-11-14T22:13:56.000Z''\<rparr>,
         \<lparr>id' = ''3'', Donation.donor_name = ''Cat'', Donation.recipient = None,
          Donation.amount_sats = 3000, Donation.status = PAID,
          Donation.paid_at = ''2023-11-14T22:13:46.000Z''\<rparr>,
         \<lparr>id' = ''2'', Donation.donor_name = ''Bob'', Donation.recipient = None,
          Donation.amount_sats = 2000, Donation.status = PAID,
          Donation.paid_at = ''2023-11-14T22:13:36.000Z''\<rparr>,
         \<lparr>id' = ''1'', Donation.donor_name = ''Ann'', Donation.recipient = Some ''Shelter'',
          Donation.amount_sats = 1000, Donation.status = PAID,
          Donation.paid_at = ''2023-11-14T22:13:26.000Z''\<rparr>],
      pendingInvoice = None,
      pollCount = 0\<rparr>"
  by (simp add: five_paid_def five_calls_def init_state_def createInvoice_def getInvoiceStatus_def
      newDonation_def Let_def show_nat.simps digit_char_def)

text \<open>
  C7, as the code has it. \<open>getRecentDonations\<close> takes no limit. In every state reached
  from the empty ledger it returns the first five donations of the ledger, or all of
  them when there are fewer; these are the donations promoted last, the latest first
  (their ids count down from the size of the ledger). When the clock readings of the
  status calls never decrease, this order is most recent first by \<open>paid_at\<close>, and of two
  donations with the same \<open>paid_at\<close> the one promoted later comes first.
\<close>

theorem getRecentDonations_newest_five:
  assumes "sorted (poll_times cs)" and "s = run cs init_state"
  shows "getRecentDonations s = take 5 (mockDonations s)
     \<and> length (getRecentDonations s) = min 5 (length (mockDonations s))
     \<and> map id' (getRecentDonations s)
          = take 5 (map show_nat (rev [1..<Suc (length (mockDonations s))]))
     \<and> newest_first (getRecentDonations s)"
proof -
  have "newest_first (mockDonations s)"
    unfolding assms(2) using assms(1) by (rule run_newest_first) (simp_all add: init_state_def)
  then have "newest_first (take 5 (mockDonations s))"
    by (rule sorted_wrt_take)
  moreover have "map id' (mockDonations s) = map show_nat (rev [1..<Suc (length (mockDonations s))])"
    unfolding assms(2) by (rule run_ids) (simp add: init_state_def)
  then have "map id' (take 5 (mockDonations s))
      = take 5 (map show_nat (rev [1..<Suc (length (mockDonations s))]))"
    by (metis take_map)
  ultimately show ?thesis by (simp add: getRecentDonations_def)
qed

theorem getRecentDonations_newest_five_witness:
  "sorted (poll_times five_calls) \<and>
   getRecentDonations five_paid = take 5 (mockDonations five_paid) \<and>
   length (getRecentDonations five_paid) = 5 \<and>
   map id' (getRecentDonations five_paid) = [''5'', ''4'', ''3'', ''2'', ''1''] \<and>
   newest_first (getRecentDonations five_paid)"
proof -
  have h: "sorted (poll_times five_calls)"
    by (simp add: five_calls_def)
  note newest = getRecentDonations_newest_five [OF h five_paid_def]
  from newest have "getRecentDonations five_paid = take 5 (mockDonations five_paid)"
    by (rule conjunct1)
  moreover from newest have "newest_first (getRecentDonations five_paid)"
    by blast
  moreover have "length (getRecentDonations five_paid) = 5"
    by (simp add: getRecentDonations_def five_paid_eval)
  moreover have "map id' (getRecentDonations five_paid) = [''5'', ''4'', ''3'', ''2'', ''1'']"
    by (simp add: getRecentDonations_def five_paid_eval)
  ultimately show ?thesis using h by blast
qed

text \<open>
  C7 as stated fails: there is no limit to pass, and after five payments the call
  returns all five donations, not the three most recent ones.
\<close>

theorem getRecentDonations_limit_counterexample:
  "length (mockDonations five_paid) = 5 \<and>
   \<not> length (getRecentDonations five_paid) \<le> 3 \<and>
   map Donation.donor_name (getRecentDonations five_paid) = [''Eve'', ''Dan'', ''Cat'', ''Bob'', ''Ann'']"
  by (simp add: getRecentDonations_def five_paid_eval)

subsection \<open>When the backend cannot be asked\<close>

text \<open>
  C6, as the code has it. When the backend call fails, \<open>getInvoiceStatus\<close> and
  \<open>getDonationReceipt\<close> of the backend client throw: an outcome of its own, neither
  \<open>PENDING\<close> nor \<open>PAID\<close>. \<open>confirmPayment\<close> instead returns the simulated confirmation,
  \<open>PAID\<close> with the local clock reading as \<open>paid_at\<close>, and the receipt component shows the
  receipt it builds from its own props and the local clock.
\<close>

theorem backend_unavailable:
  assumes "unavailable status_response" and "unavailable receipt_response"
  shows "(\<exists>e. getInvoiceStatus_backend status_response = Inl e)
     \<and> (\<exists>e. getDonationReceipt receipt_response = Inl e)
     \<and> confirmPayment status_response iso_now
          = \<lparr>InvoiceStatus.status = PAID, InvoiceStatus.paid_at = Some iso_now\<rparr>
     \<and> fetchReceipt h a n r receipt_response now iso_now = fallback_receipt h a n r now iso_now"
proof -
  from assms(1) have "\<exists>e. getInvoiceStatus_backend status_response = Inl e"
    by (auto simp: unavailable_def getInvoiceStatus_backend_def split: response.splits)
  moreover from assms(2) have e: "\<exists>e. getDonationReceipt receipt_response = Inl e"
    by (auto simp: unavailable_def getDonationReceipt_def split: response.splits)
  moreover from assms(1) have "confirmPayment status_response iso_now
          = \<lparr>InvoiceStatus.status = PAID, InvoiceStatus.paid_at = Some iso_now\<rparr>"
    by (auto simp: unavailable_def confirmPayment_def Let_def split: response.splits)
  moreover from e have "fetchReceipt h a n r receipt_response now iso_now
      = fallback_receipt h a n r now iso_now"
    by (auto simp: fetchReceipt_def)
  ultimately show ?thesis by (intro conjI)
qed

theorem backend_unavailable_witness:
  "unavailable (Response False (None :: InvoiceStatus option)) \<and>
   unavailable (Rejected :: DonationReceipt response) \<and>
   getInvoiceStatus_backend (Response False None) = Inl (Error ''Failed to check payment status'') \<and>
   getDonationReceipt Rejected = Inl TypeError \<and>
   confirmPayment (Response False None) ''2023-11-14T22:13:26.000Z''
     = \<lparr>InvoiceStatus.status = PAID, InvoiceStatus.paid_at = Some ''2023-11-14T22:13:26.000Z''\<rparr> \<and>
   fetchReceipt ann_hash 1000 ''Ann'' (Some ''Shelter'') Rejected 1700000006500 ''2023-11-14T22:13:26.500Z''
     = fallback_receipt ann_hash 1000 ''Ann'' (Some ''Shelter'') 1700000006500 ''2023-11-14T22:13:26.500Z''"
proof -
  have h1: "unavailable (Response False (None :: InvoiceStatus option))"
    by (simp add: unavailable_def)
  have h2: "unavailable (Rejected :: DonationReceipt response)"
    by (simp add: unavailable_def)
  have "getInvoiceStatus_backend (Response False None) = Inl (Error ''Failed to check payment status'')"
    by (simp add: getInvoiceStatus_backend_def)
  moreover have "getDonationReceipt Rejected = Inl TypeError"
    by (simp add: getDonationReceipt_def)
  ultimately show ?thesis
    using backend_unavailable [OF h1 h2, of "''2023-11-14T22:13:26.000Z''"]
      backend_unavailable [OF h1 h2, of "''2023-11-14T22:13:26.500Z''" ann_hash 1000 "''Ann''"
        "Some ''Shelter''" 1700000006500] h1 h2
    by simp
qed

text \<open>
  C6 as stated fails: with the backend unreachable, \<open>confirmPayment\<close> answers \<open>PAID\<close>
  with a local \<open>paid_at\<close>, and the receipt shown for Ann's payment is made up locally,
  down to its transaction id.
\<close>

theorem confirmPayment_fabricates_counterexample:
  "confirmPayment Rejected ''2023-11-14T22:13:26.000Z''
     = \<lparr>InvoiceStatus.status = PAID, InvoiceStatus.paid_at = Some ''2023-11-14T22:13:26.000Z''\<rparr> \<and>
   fetchReceipt ann_hash 1000 ''Ann'' (Some ''Shelter'') Rejected 1700000006500 ''2023-11-14T22:13:26.500Z''
     = \<lparr>DonationReceipt.id' = ''donation_1700000006500'',
        DonationReceipt.donor_name = ''Ann'',
        DonationReceipt.recipient = Some ''Shelter'',
        DonationReceipt.amount_sats = 1000,
        DonationReceipt.payment_hash = ''mock_payment_hash_1700000000000'',
        DonationReceipt.paid_at = ''2023-11-14T22:13:26.500Z'',
        transaction_id = ''lntx1mock_payw1000'',
        network = ''Bitcoin Lightning Network (Testnet)''\<rparr>"
  by (simp add: confirmPayment_def Let_def fetchReceipt_def getDonationReceipt_def fallback_receipt_def
      ann_hash_def show_nat.simps digit_char_def show_int_def)

end
